theory Spec2Isabelle
  imports Complex_Main "HOL-Library.Word"
begin

section \<open>Frames and the alpha overlay helper (Effect Bulk/subscribe_effect.py)\<close>

text \<open>
  A frame is a numpy array of dtype uint8 and shape (rows, columns, channels). It is
  modelled as its first two dimensions together with the store of its cells: a function
  from (row, column, channel) to the byte held there. A video frame has the three
  channels B, G, R; an overlay frame has a fourth channel, alpha, at index 3.
\<close>

type_synonym uint8 = "8 word"

record ndarray =
  shape0 :: nat
  shape1 :: nat
  px :: "nat \<Rightarrow> nat \<Rightarrow> nat \<Rightarrow> uint8"

text \<open>
  One cell of \<^verbatim>\<open>alpha * overlay[:, :, c] + (1 - alpha) * background[y:y+h, x:x+w, c]\<close>
  with \<^verbatim>\<open>alpha = overlay[:, :, 3] / 255.0\<close>, stored back into the uint8 array (the
  store truncates). The arithmetic is written over the rationals; numpy computes it in
  binary floating point, which agrees at alpha 0 and alpha 255.
\<close>

definition blend :: "uint8 \<Rightarrow> uint8 \<Rightarrow> uint8 \<Rightarrow> uint8" where
  "blend a ov bg =
     (let alpha = (of_nat (unat a) :: rat) / 255
      in of_int \<lfloor>alpha * of_nat (unat ov) + (1 - alpha) * of_nat (unat bg)\<rfloor>)"

text \<open>
  The body of the loop \<^verbatim>\<open>for c in range(3)\<close>: the slice assignment
  \<^verbatim>\<open>background[y:y+h, x:x+w, c] = ...\<close> for one channel \<open>c\<close>, with \<open>x\<close> and \<open>y\<close>
  already known to be in range.
\<close>

definition assign_channel :: "ndarray \<Rightarrow> nat \<Rightarrow> nat \<Rightarrow> nat \<Rightarrow> ndarray \<Rightarrow> ndarray" where
  "assign_channel overlay x y c background =
     background\<lparr>px := (\<lambda>i j k.
        if y \<le> i \<and> i < y + shape0 overlay \<and> x \<le> j \<and> j < x + shape1 overlay \<and> k = c
        then blend (px overlay (i - y) (j - x) 3) (px overlay (i - y) (j - x) c)
                   (px background i j c)
        else px background i j k)\<rparr>"

text \<open>
  \<^verbatim>\<open>overlay_transparent(background, overlay, x, y)\<close> mutates \<open>background\<close> in place and
  returns nothing; the model returns the array as the call leaves it. \<open>x\<close> and \<open>y\<close> are
  Python integers and may be negative.
\<close>

definition overlay_transparent :: "ndarray \<Rightarrow> ndarray \<Rightarrow> int \<Rightarrow> int \<Rightarrow> ndarray" where
  "overlay_transparent background overlay x y =
     (let h = shape0 overlay; w = shape1 overlay
      in if y + int h > int (shape0 background) \<or> x + int w > int (shape1 background)
            \<or> y < 0 \<or> x < 0
         then background
         else fold (assign_channel overlay (nat x) (nat y)) [0 ..< 3] background)"

section \<open>The usage ledger and the fair choice of a GIF (Effect Bulk/subscribe_effect.py)\<close>

datatype py_error = ZeroDivisionError | FileNotFoundError | Exception

text \<open>
  \<^verbatim>\<open>USAGE_DATA\<close> is the dictionary read from gif_usage.json. Both of its keys are read
  with \<^verbatim>\<open>.get(key, default)\<close> and written with \<^verbatim>\<open>.setdefault\<close>, so either may be
  absent: each field is optional.
\<close>

record usage_data =
  used :: "string list option"
  video_map :: "(string \<rightharpoonup> string) option"

text \<open>
  The file gif_usage.json: \<open>None\<close> when it does not exist or cannot be parsed, otherwise
  the dictionary it holds.
\<close>

type_synonym usage_file = "usage_data option"


text \<open>
  \<^verbatim>\<open>save_usage\<close> opens the file for writing, which empties it, and dumps the
  dictionary; it swallows every exception. Either the write succeeds, or the file cannot
  be opened and stays as it was, or the dump fails after the opening and leaves a file
  that cannot be parsed.
\<close>

datatype write_outcome = Written | NotOpened | Truncated

definition save_usage :: "write_outcome \<Rightarrow> usage_data \<Rightarrow> usage_file \<Rightarrow> usage_file" where
  "save_usage io_ok data file =
     (case io_ok of Written \<Rightarrow> Some data | NotOpened \<Rightarrow> file | Truncated \<Rightarrow> None)"

record sticker_state =
  USAGE_DATA :: usage_data
  USAGE_FILE :: usage_file


text \<open>
  \<^verbatim>\<open>random.choice(xs)\<close> with the random draw \<open>rnd\<close> made explicit: every element of a
  non-empty \<open>xs\<close> is the result for some draw. The source calls it on non-empty lists only
  (on an empty list Python raises IndexError).
\<close>

definition random_choice :: "nat \<Rightarrow> 'a list \<Rightarrow> 'a" where
  "random_choice rnd xs = xs ! (rnd mod length xs)"

text \<open>
  \<^verbatim>\<open>ALL_GIFS\<close> is a dictionary from file name to the list of its frames, in insertion
  order: an association list. \<^verbatim>\<open>pick_gif_for_video\<close> reads and updates the global
  \<^verbatim>\<open>USAGE_DATA\<close> and writes the file; the model takes the state and returns the new one.
  The last lookup \<^verbatim>\<open>ALL_GIFS[chosen_name]\<close> is of a name taken from the keys.
\<close>

definition pick_gif_for_video ::
  "(string \<times> 'f list) list \<Rightarrow> nat \<Rightarrow> write_outcome \<Rightarrow> sticker_state \<Rightarrow> string
     \<Rightarrow> 'f list \<times> sticker_state" where
  "pick_gif_for_video ALL_GIFS rnd io_ok st video_id =
     (let data = USAGE_DATA st
      in case (case video_map data of None \<Rightarrow> Map.empty | Some m \<Rightarrow> m) video_id of
           Some name \<Rightarrow>
             ((case map_of ALL_GIFS name of
                 Some frames \<Rightarrow> frames
               | None \<Rightarrow> (if ALL_GIFS \<noteq> [] then random_choice rnd (map snd ALL_GIFS) else [])),
              st)
         | None \<Rightarrow>
             (let all_names = map fst ALL_GIFS
              in if all_names = [] then ([], st)
                 else
                   (let used0 = (case used data of None \<Rightarrow> [] | Some u \<Rightarrow> u);
                        reset = (length (remdups used0) \<ge> length all_names);
                        data1 = (if reset then data\<lparr>used := Some []\<rparr> else data);
                        used_set = (if reset then {} else set used0);
                        available0 = filter (\<lambda>n. n \<notin> used_set) all_names;
                        available = (if available0 = [] then all_names else available0);
                        chosen_name = random_choice rnd available;
                        data2 = data1\<lparr>used :=
                          Some ((case used data1 of None \<Rightarrow> [] | Some u \<Rightarrow> u) @ [chosen_name])\<rparr>;
                        data3 = data2\<lparr>video_map :=
                          Some ((case video_map data2 of None \<Rightarrow> Map.empty | Some m \<Rightarrow> m)
                                  (video_id \<mapsto> chosen_name))\<rparr>
                    in (the (map_of ALL_GIFS chosen_name),
                        \<lparr>USAGE_DATA = data3,
                         USAGE_FILE = save_usage io_ok data3 (USAGE_FILE st)\<rparr>))))"

text \<open>The asset name the ledger binds to a job identity, if any.\<close>

definition assigned :: "sticker_state \<Rightarrow> string \<Rightarrow> string option" where
  "assigned st video_id =
     (case video_map (USAGE_DATA st) of None \<Rightarrow> None | Some m \<Rightarrow> m video_id)"







section \<open>The sticker effect (Effect Bulk/subscribe_effect.py)\<close>



section \<open>The frame compositor and the encoder bridge (editit.py, create_video)\<close>

text \<open>
  The keyword arguments the frame loop can bind, by parameter name, for an effect. An
  effect that does not declare a parameter does not read the field.
\<close>

record kwargs =
  kw_frame_idx :: nat
  kw_fps :: int
  kw_video_id :: string
  kw_audio_name :: string

text \<open>
  An effect is a Python function loaded from a file of the effects directory. It is handed
  the frame buffer by reference, so it can write to the buffer before it returns or
  raises (the sticker effect itself writes in place). Its outcome is either the array it
  returns, or an exception of class \<^verbatim>\<open>Exception\<close> together with the contents of the
  buffer at that moment.
\<close>

datatype outcome = Returns ndarray | Raises ndarray

type_synonym effect = "string \<times> (ndarray \<Rightarrow> kwargs \<Rightarrow> outcome)"

text \<open>
  The loop \<^verbatim>\<open>for effect in effects_list\<close> with its \<^verbatim>\<open>try\<close> ... \<^verbatim>\<open>except Exception\<close>:
  the result is the frame and the names printed by the error lines.
\<close>

fun apply_effects :: "effect list \<Rightarrow> kwargs \<Rightarrow> ndarray \<Rightarrow> ndarray \<times> string list" where
  "apply_effects [] kw frame = (frame, [])"
| "apply_effects ((name, effect) # rest) kw frame =
     (case effect frame kw of
        Returns frame1 \<Rightarrow> apply_effects rest kw frame1
      | Raises frame1 \<Rightarrow>
          (let (frame2, errors) = apply_effects rest kw frame1 in (frame2, name # errors)))"

datatype probe = ProbeError | ProbeDuration rat

datatype wait_result = Exited int | TimeoutExpired

text \<open>
  What the outside world answers during one call of \<^verbatim>\<open>create_video\<close>: the image read,
  \<^verbatim>\<open>cv2.resize\<close>, the duration printed by ffprobe (or its failure), whether the caption
  file exists, whether the encoder could be started, whether each write to its pipe and
  the closing of the pipe succeed, and how \<^verbatim>\<open>process.wait(timeout=30)\<close> ends.
\<close>

record world =
  imread :: "ndarray option"
  resize :: "ndarray \<Rightarrow> nat \<Rightarrow> nat \<Rightarrow> ndarray"
  ffprobe :: probe
  srt_exists :: bool
  popen_ok :: bool
  write_ok :: "nat \<Rightarrow> bool"
  close_ok :: bool
  wait_outcome :: wait_result

text \<open>What \<^verbatim>\<open>create_video\<close> does to the encoder subprocess, in order.\<close>

datatype event =
    Popen bool
  | Write nat ndarray
  | Close
  | Wait nat
  | Kill
  | EffectError string

text \<open>Python's \<^verbatim>\<open>int(x)\<close> on a float: truncation towards zero.\<close>

definition py_int :: "rat \<Rightarrow> int" where
  "py_int q = (if 0 \<le> q then \<lfloor>q\<rfloor> else \<lceil>q\<rceil>)"

text \<open>
  The loop \<^verbatim>\<open>for frame_idx in range(total_frames)\<close>: each frame is a copy of the image
  run through the effects and written to the pipe. A write that raises ends the loop.
\<close>

fun write_frames ::
  "world \<Rightarrow> effect list \<Rightarrow> ndarray \<Rightarrow> int \<Rightarrow> string \<Rightarrow> string \<Rightarrow> nat list
     \<Rightarrow> bool \<times> event list" where
  "write_frames w effects_list img fps video_id audio_name [] = (True, [])"
| "write_frames w effects_list img fps video_id audio_name (frame_idx # rest) =
     (let (frame, errors) =
            apply_effects effects_list
              \<lparr>kw_frame_idx = frame_idx, kw_fps = fps, kw_video_id = video_id,
               kw_audio_name = audio_name\<rparr> img
      in if write_ok w frame_idx
         then (let (ok, events) = write_frames w effects_list img fps video_id audio_name rest
               in (ok, map EffectError errors @ Write frame_idx frame # events))
         else (False, map EffectError errors))"

text \<open>
  \<^verbatim>\<open>create_video(image_path, audio_path, srt_path, output_path, fps)\<close>. The paths matter
  through what the world answers for them; \<open>video_id\<close> is the base name of the output
  path and \<open>audio_name\<close> the base name of the audio path without its extension. The result
  is the returned boolean and the events on the encoder subprocess.
\<close>

definition create_video ::
  "world \<Rightarrow> effect list \<Rightarrow> string option \<Rightarrow> string \<Rightarrow> string \<Rightarrow> int \<Rightarrow> bool \<times> event list" where
  "create_video w effects_list srt_path video_id audio_name fps =
     (case imread w of
        None \<Rightarrow> (False, [])
      | Some img0 \<Rightarrow>
          (let h0 = shape0 img0;
               w0 = shape1 img0;
               w1 = (if w0 mod 2 \<noteq> 0 then w0 - 1 else w0);
               h1 = (if h0 mod 2 \<noteq> 0 then h0 - 1 else h0);
               img = resize w img0 w1 h1
           in case ffprobe w of
                ProbeError \<Rightarrow> (False, [])
              | ProbeDuration duration \<Rightarrow>
                  (let total_frames = py_int (duration * of_int fps)
                   in if total_frames \<le> 0 then (False, [])
                      else
                        (let video_filters =
                               ((case srt_path of None \<Rightarrow> False | Some p \<Rightarrow> p \<noteq> [])
                                \<and> srt_exists w)
                         in if \<not> popen_ok w then (False, [])
                            else
                              (let (ok, events) =
                                     write_frames w effects_list img fps video_id audio_name
                                       [0 ..< nat total_frames]
                               in if \<not> ok then (False, Popen video_filters # events @ [Kill])
                                  else if \<not> close_ok w
                                  then (False, Popen video_filters # events @ [Kill])
                                  else
                                    (case wait_outcome w of
                                       TimeoutExpired \<Rightarrow>
                                         (False,
                                          Popen video_filters # events @ [Close, Wait 30, Kill])
                                     | Exited returncode \<Rightarrow>
                                         if returncode \<noteq> 0
                                         then (False,
                                               Popen video_filters # events @ [Close, Wait 30])
                                         else (True,
                                               Popen video_filters # events @ [Close, Wait 30])))))))"

section \<open>The batch orchestrator (editit.py, main loop)\<close>

definition MAX_EDIT_RETRIES :: nat where
  "MAX_EDIT_RETRIES = 3"

text \<open>The calls the retry loop makes, in order.\<close>

datatype call = GenerateSrt | CreateVideo nat "string option" | Sleep nat

record retry_state =
  attempt :: nat
  video_success :: bool
  srt_file :: "string option"
  calls :: "call list"

text \<open>Python's truth value of \<^verbatim>\<open>srt_file\<close>: neither \<^verbatim>\<open>None\<close> nor the empty string.\<close>

definition truthy :: "string option \<Rightarrow> bool" where
  "truthy p = (case p of None \<Rightarrow> False | Some s \<Rightarrow> s \<noteq> [])"

text \<open>
  The end of one pass of the loop body, after the \<^verbatim>\<open>try\<close>: the sleep before a retry.
\<close>

definition sleep_before_retry :: "nat \<Rightarrow> retry_state \<Rightarrow> retry_state" where
  "sleep_before_retry max_retries st =
     (if \<not> video_success st \<and> attempt st < max_retries
      then st\<lparr>calls := calls st @ [Sleep 5]\<rparr> else st)"

text \<open>
  The loop \<^verbatim>\<open>while attempt < MAX_EDIT_RETRIES\<close>. \<open>generate_srt\<close> is what
  \<^verbatim>\<open>generate_srt(aud_path)\<close> returns (the function catches its own exceptions and then
  returns \<^verbatim>\<open>None\<close>); \<open>render n p\<close> is what the call of \<^verbatim>\<open>create_video\<close> in attempt \<open>n\<close>
  with caption path \<open>p\<close> does: return a boolean or raise.
\<close>

function retry_loop ::
  "nat \<Rightarrow> string option \<Rightarrow> (nat \<Rightarrow> string option \<Rightarrow> py_error + bool) \<Rightarrow> retry_state
     \<Rightarrow> retry_state" where
  "retry_loop max_retries generate_srt render st =
     (if attempt st < max_retries
      then
        (let st1 = st\<lparr>attempt := attempt st + 1\<rparr>;
             st2 = (if attempt st1 = 1
                    then st1\<lparr>srt_file := generate_srt, calls := calls st1 @ [GenerateSrt]\<rparr>
                    else st1)
         in if attempt st1 = 1 \<and> \<not> truthy (srt_file st2) then st2
            else
              (let st3 = st2\<lparr>calls := calls st2 @ [CreateVideo (attempt st2) (srt_file st2)]\<rparr>
               in case render (attempt st3) (srt_file st3) of
                    Inr ok \<Rightarrow>
                      if ok then st3\<lparr>video_success := True\<rparr>
                      else retry_loop max_retries generate_srt render
                             (sleep_before_retry max_retries (st3\<lparr>video_success := False\<rparr>))
                  | Inl e \<Rightarrow>
                      retry_loop max_retries generate_srt render
                        (sleep_before_retry max_retries (st3\<lparr>video_success := False\<rparr>))))
      else st)"
  by pat_completeness auto
termination
  by (relation "measure (\<lambda>(m, g, r, st). m - attempt st)")
     (auto simp: sleep_before_retry_def)

definition initial_retry_state :: retry_state where
  "initial_retry_state = \<lparr>attempt = 0, video_success = False, srt_file = None, calls = []\<rparr>"

text \<open>
  The file system as the set of paths that exist. \<^verbatim>\<open>os.remove\<close> of a path that does
  not exist raises.
\<close>

definition os_remove :: "string \<Rightarrow> string set \<Rightarrow> py_error + string set" where
  "os_remove path fs = (if path \<in> fs then Inr (fs - {path}) else Inl FileNotFoundError)"

text \<open>
  The final cleanup after the retry loop: the caption file is removed if it exists; on
  success the audio and then the image are removed inside one \<^verbatim>\<open>try\<close>, so a failure
  of the first removal skips the second.
\<close>

definition final_cleanup :: "retry_state \<Rightarrow> string \<Rightarrow> string \<Rightarrow> string set \<Rightarrow> string set" where
  "final_cleanup st img_path aud_path fs =
     (let fs1 = (case srt_file st of
                   None \<Rightarrow> fs
                 | Some p \<Rightarrow> if p \<noteq> [] \<and> p \<in> fs then fs - {p} else fs)
      in if video_success st
         then (case os_remove aud_path fs1 of
                 Inl e \<Rightarrow> fs1
               | Inr fs2 \<Rightarrow>
                   (case os_remove img_path fs2 of
                      Inl e \<Rightarrow> fs2
                    | Inr fs3 \<Rightarrow> fs3))
         else fs1)"

text \<open>One pair from discovery to the end of the cleanup.\<close>

definition process_pair ::
  "string option \<Rightarrow> (nat \<Rightarrow> string option \<Rightarrow> py_error + bool) \<Rightarrow> string \<Rightarrow> string
     \<Rightarrow> string set \<Rightarrow> retry_state \<times> string set" where
  "process_pair generate_srt render img_path aud_path fs =
     (let st = retry_loop MAX_EDIT_RETRIES generate_srt render initial_retry_state
      in (st, final_cleanup st img_path aud_path fs))"

section \<open>Observations on the encoder events\<close>

text \<open>The indices of the frames written to the pipe, in order.\<close>

fun written :: "event list \<Rightarrow> nat list" where
  "written [] = []"
| "written (Write frame_idx frame # events) = frame_idx # written events"
| "written (e # events) = written events"

text \<open>The events without the error lines of the effects.\<close>

fun encoder_events :: "event list \<Rightarrow> event list" where
  "encoder_events [] = []"
| "encoder_events (EffectError name # events) = encoder_events events"
| "encoder_events (e # events) = e # encoder_events events"

text \<open>The events of the frame loop: a frame written, or the error line of an effect.\<close>

definition frame_event :: "event \<Rightarrow> bool" where
  "frame_event e = (case e of Write i f \<Rightarrow> True | EffectError n \<Rightarrow> True | _ \<Rightarrow> False)"

section \<open>Concrete frames and assets used in the examples\<close>

definition black_frame :: ndarray where
  "black_frame = \<lparr>shape0 = 20, shape1 = 20, px = (\<lambda>i j k. 0)\<rparr>"

definition white_dot :: ndarray where
  "white_dot = \<lparr>shape0 = 1, shape1 = 1, px = (\<lambda>i j k. 255)\<rparr>"





definition studio_world :: world where
  "studio_world =
     \<lparr>imread = Some black_frame, resize = (\<lambda>img w h. img), ffprobe = ProbeDuration (3 / 10),
      srt_exists = True, popen_ok = True, write_ok = (\<lambda>i. True), close_ok = True,
      wait_outcome = Exited 0\<rparr>"

definition refusing_effect :: effect where
  "refusing_effect = (''refuse'', (\<lambda>frame kw. Raises frame))"

definition painting_effect :: effect where
  "painting_effect = (''paint'', (\<lambda>frame kw. Returns (overlay_transparent frame white_dot 7 7)))"

definition scribbling_effect :: effect where
  "scribbling_effect =
     (''scribble'', (\<lambda>frame kw. Raises (overlay_transparent frame white_dot 7 7)))"

definition first_frame_kwargs :: kwargs where
  "first_frame_kwargs =
     \<lparr>kw_frame_idx = 0, kw_fps = 10, kw_video_id = ''video_1.mp4'', kw_audio_name = ''a''\<rparr>"

definition third_time_lucky :: "nat \<Rightarrow> string option \<Rightarrow> py_error + bool" where
  "third_time_lucky n p = (if n = 1 then Inr False else if n = 2 then Inl Exception else Inr True)"

definition always_failing :: "nat \<Rightarrow> string option \<Rightarrow> py_error + bool" where
  "always_failing n p = Inr False"

definition pair_files :: "string set" where
  "pair_files = {''images/a.png'', ''audio/a.mp3'', ''audio/a.srt''}"




section \<open>Properties of the overlay helper\<close>

lemma upt_3: "[0 ..< 3] = [0, 1, 2]"
  by (simp add: upt_rec)

lemma assign_channel_shape:
  "shape0 (assign_channel ov x y c bg) = shape0 bg \<and>
   shape1 (assign_channel ov x y c bg) = shape1 bg"
  by (simp add: assign_channel_def)

lemma px_assign_channel:
  "px (assign_channel ov x y c bg) i j k =
     (if y \<le> i \<and> i < y + shape0 ov \<and> x \<le> j \<and> j < x + shape1 ov \<and> k = c
      then blend (px ov (i - y) (j - x) 3) (px ov (i - y) (j - x) c) (px bg i j c)
      else px bg i j k)"
  by (simp add: assign_channel_def)

lemma overlay_transparent_shape:
  "shape0 (overlay_transparent bg ov x y) = shape0 bg \<and>
   shape1 (overlay_transparent bg ov x y) = shape1 bg"
  by (simp add: overlay_transparent_def Let_def upt_3 assign_channel_shape)

lemma overlay_transparent_out_of_bounds:
  "x < 0 \<or> y < 0 \<or> x + int (shape1 ov) > int (shape1 bg) \<or> y + int (shape0 ov) > int (shape0 bg)
   \<Longrightarrow> overlay_transparent bg ov x y = bg"
  by (auto simp: overlay_transparent_def Let_def)

lemma px_overlay_transparent_in_bounds:
  assumes "0 \<le> x" "0 \<le> y"
    and "x + int (shape1 ov) \<le> int (shape1 bg)" "y + int (shape0 ov) \<le> int (shape0 bg)"
  shows "px (overlay_transparent bg ov x y) i j k =
     (if nat y \<le> i \<and> i < nat y + shape0 ov \<and> nat x \<le> j \<and> j < nat x + shape1 ov \<and> k < 3
      then blend (px ov (i - nat y) (j - nat x) 3) (px ov (i - nat y) (j - nat x) k) (px bg i j k)
      else px bg i j k)"
proof -
  have eq: "overlay_transparent bg ov x y
      = assign_channel ov (nat x) (nat y) 2
          (assign_channel ov (nat x) (nat y) 1 (assign_channel ov (nat x) (nat y) 0 bg))"
    using assms by (simp add: overlay_transparent_def Let_def upt_3)
  have "k < 3 \<longleftrightarrow> k = 0 \<or> k = 1 \<or> k = 2"
    by arith
  then show ?thesis
    unfolding eq by (auto simp: px_assign_channel)
qed

text \<open>
  C10. Blending an overlay of size w x h at position (x, y) can change only the cells with
  row in [y, y+h), column in [x, x+w) and channel in {0, 1, 2}: every other cell of the
  frame keeps its value, and the frame keeps its dimensions.
\<close>

theorem overlay_transparent_frame:
  "shape0 (overlay_transparent bg ov x y) = shape0 bg \<and>
   shape1 (overlay_transparent bg ov x y) = shape1 bg \<and>
   (\<forall>i j k. \<not> (y \<le> int i \<and> int i < y + int (shape0 ov) \<and>
                x \<le> int j \<and> int j < x + int (shape1 ov) \<and> k < 3)
       \<longrightarrow> px (overlay_transparent bg ov x y) i j k = px bg i j k)"
proof (cases "0 \<le> x \<and> 0 \<le> y \<and> x + int (shape1 ov) \<le> int (shape1 bg)
              \<and> y + int (shape0 ov) \<le> int (shape0 bg)")
  case True
  then have "px (overlay_transparent bg ov x y) i j k = px bg i j k"
    if "\<not> (y \<le> int i \<and> int i < y + int (shape0 ov) \<and>
            x \<le> int j \<and> int j < x + int (shape1 ov) \<and> k < 3)" for i j k
    using that by (subst px_overlay_transparent_in_bounds) auto
  then show ?thesis
    by (simp add: overlay_transparent_shape)
next
  case False
  then have "overlay_transparent bg ov x y = bg"
    by (intro overlay_transparent_out_of_bounds) auto
  then show ?thesis by simp
qed

theorem overlay_transparent_frame_witness:
  "\<not> (7 \<le> int 3 \<and> int 3 < 7 + int (shape0 white_dot) \<and>
      7 \<le> int 3 \<and> int 3 < 7 + int (shape1 white_dot) \<and> (0::nat) < 3) \<and>
   px (overlay_transparent black_frame white_dot 7 7) 3 3 0 = px black_frame 3 3 0"
proof -
  have outside: "\<not> (7 \<le> int 3 \<and> int 3 < 7 + int (shape0 white_dot) \<and>
      7 \<le> int 3 \<and> int 3 < 7 + int (shape1 white_dot) \<and> (0::nat) < 3)"
    by simp
  from overlay_transparent_frame [of black_frame white_dot 7 7] outside
  have "px (overlay_transparent black_frame white_dot 7 7) 3 3 0 = px black_frame 3 3 0"
    by blast
  with outside show ?thesis by simp
qed

section \<open>The sticker effect: temporal gating and placement\<close>







lemma dot_on_black: "overlay_transparent black_frame white_dot 7 7 \<noteq> black_frame"
proof
  assume "overlay_transparent black_frame white_dot 7 7 = black_frame"
  then have "px (overlay_transparent black_frame white_dot 7 7) 7 7 0 = px black_frame 7 7 0"
    by simp
  then show False
    by (simp add: overlay_transparent_def black_frame_def white_dot_def upt_3 assign_channel_def
        blend_def)
qed







section \<open>The encoder bridge\<close>



lemma written_append: "written (xs @ ys) = written xs @ written ys"
  by (induction xs rule: written.induct) simp_all

lemma written_EffectError: "written (map EffectError errors) = []"
  by (induction errors) simp_all

lemma write_frames_events:
  "write_frames w effects_list img fps video_id audio_name idxs = (ok, events)
   \<Longrightarrow> (\<forall>e \<in> set events. frame_event e) \<and> (ok \<longrightarrow> written events = idxs)"
proof (induction idxs arbitrary: ok events)
  case Nil
  then show ?case by auto
next
  case (Cons i idxs)
  then show ?case
    by (auto simp: Let_def written_append written_EffectError frame_event_def
        split: prod.splits if_splits)
qed


lemma frame_event_simps:
  "\<not> frame_event Close" "\<not> frame_event Kill" "\<not> frame_event (Wait n)" "\<not> frame_event (Popen b)"
  by (simp_all add: frame_event_def)

lemma frame_events_free:
  assumes "\<forall>e \<in> set events. frame_event e"
  shows "Close \<notin> set events" "Kill \<notin> set events" "Wait n \<notin> set events" "Popen b \<notin> set events"
  using assms frame_event_simps by blast+

text \<open>
  C7. create_video returns False whenever the encoder exits with a non-zero code and
  whenever the wait for its exit times out; the only wait it makes is bounded by 30
  seconds and follows the closing of the pipe, and when that wait times out the
  subprocess is killed as the last action. It returns True only when the subprocess
  exited with code zero, was never killed, and every frame 0 .. total_frames - 1 was
  written, in order.
\<close>

theorem create_video_encoder_failure:
  assumes "create_video w effects_list srt_path video_id audio_name fps = (ok, events)"
  shows "(\<forall>returncode. wait_outcome w = Exited returncode \<and> returncode \<noteq> 0 \<longrightarrow> \<not> ok) \<and>
         (wait_outcome w = TimeoutExpired \<longrightarrow> \<not> ok) \<and>
         (\<forall>n. Wait n \<in> set events \<longrightarrow> n = 30) \<and>
         (Close \<in> set events \<longrightarrow>
            (\<exists>frames. events = frames @ [Close, Wait 30]
                          @ (if wait_outcome w = TimeoutExpired then [Kill] else []))) \<and>
         (ok \<longrightarrow> wait_outcome w = Exited 0 \<and> Kill \<notin> set events \<and>
            (\<exists>duration. ffprobe w = ProbeDuration duration \<and>
               written events = [0 ..< nat (py_int (duration * of_int fps))]))"
proof (cases "\<exists>img0 duration. imread w = Some img0 \<and> ffprobe w = ProbeDuration duration \<and>
                0 < py_int (duration * of_int fps) \<and> popen_ok w")
  case False
  have "create_video w effects_list srt_path video_id audio_name fps = (False, [])"
  proof (cases "imread w")
    case None
    then show ?thesis by (simp add: create_video_def)
  next
    case (Some img0)
    show ?thesis
    proof (cases "ffprobe w")
      case ProbeError
      with Some show ?thesis by (simp add: create_video_def Let_def)
    next
      case (ProbeDuration duration)
      with Some False have "py_int (duration * of_int fps) \<le> 0 \<or> \<not> popen_ok w"
        by auto
      with Some ProbeDuration show ?thesis
        by (auto simp: create_video_def Let_def)
    qed
  qed
  with assms show ?thesis by simp
next
  case True
  then obtain img0 duration where w: "imread w = Some img0" "ffprobe w = ProbeDuration duration"
    "0 < py_int (duration * of_int fps)" "popen_ok w"
    by blast
  define img where "img = resize w img0 (if shape1 img0 mod 2 \<noteq> 0 then shape1 img0 - 1 else shape1 img0)
      (if shape0 img0 mod 2 \<noteq> 0 then shape0 img0 - 1 else shape0 img0)"
  define vf where "vf = ((case srt_path of None \<Rightarrow> False | Some p \<Rightarrow> p \<noteq> []) \<and> srt_exists w)"
  obtain wok wevs where wf: "write_frames w effects_list img fps video_id audio_name
      [0 ..< nat (py_int (duration * of_int fps))] = (wok, wevs)"
    by (cases "write_frames w effects_list img fps video_id audio_name
      [0 ..< nat (py_int (duration * of_int fps))]") auto
  note fe = write_frames_events [OF wf]
  note free = frame_events_free [OF fe [THEN conjunct1]]
  have cv: "create_video w effects_list srt_path video_id audio_name fps =
     (if \<not> wok then (False, Popen vf # wevs @ [Kill])
      else if \<not> close_ok w then (False, Popen vf # wevs @ [Kill])
      else (case wait_outcome w of
              TimeoutExpired \<Rightarrow> (False, Popen vf # wevs @ [Close, Wait 30, Kill])
            | Exited returncode \<Rightarrow>
                if returncode \<noteq> 0 then (False, Popen vf # wevs @ [Close, Wait 30])
                else (True, Popen vf # wevs @ [Close, Wait 30])))"
    using w wf by (simp add: create_video_def Let_def img_def vf_def split: wait_result.splits)
  show ?thesis
  proof (cases "wok \<and> close_ok w")
    case False
    with cv assms have "\<not> ok" "events = Popen vf # wevs @ [Kill]"
      by (auto split: if_splits)
    then show ?thesis using free by auto
  next
    case ok1: True
    show ?thesis
    proof (cases "wait_outcome w")
      case TimeoutExpired
      with cv assms ok1 have "\<not> ok" "events = (Popen vf # wevs) @ [Close, Wait 30] @ [Kill]"
        by auto
      then show ?thesis using free TimeoutExpired by auto
    next
      case (Exited rc)
      with cv assms ok1 have r: "ok = (rc = 0)" "events = (Popen vf # wevs) @ [Close, Wait 30] @ []"
        by (auto split: if_splits)
      have "written events = [0 ..< nat (py_int (duration * of_int fps))]"
        using r(2) fe ok1 by (simp add: written_append)
      then show ?thesis using free Exited r w(2) by auto
    qed
  qed
qed


lemma studio_run:
  "create_video studio_world [] (Some ''a.srt'') ''video_1.mp4'' ''a'' 10 =
     (True, [Popen True, Write 0 black_frame, Write 1 black_frame, Write 2 black_frame,
             Close, Wait 30])"
  by (simp add: create_video_def studio_world_def py_int_def Let_def upt_3)

text \<open>
  The theorem on a three-frame job: once with exit code 1, once with a wait that times
  out, once with a clean exit.
\<close>

theorem create_video_encoder_failure_witness:
  "wait_outcome (studio_world\<lparr>wait_outcome := Exited 1\<rparr>) = Exited 1 \<and> (1 :: int) \<noteq> 0 \<and>
   \<not> fst (create_video (studio_world\<lparr>wait_outcome := Exited 1\<rparr>) [] (Some ''a.srt'')
            ''video_1.mp4'' ''a'' 10) \<and>
   wait_outcome (studio_world\<lparr>wait_outcome := TimeoutExpired\<rparr>) = TimeoutExpired \<and>
   \<not> fst (create_video (studio_world\<lparr>wait_outcome := TimeoutExpired\<rparr>) [] (Some ''a.srt'')
            ''video_1.mp4'' ''a'' 10) \<and>
   fst (create_video studio_world [] (Some ''a.srt'') ''video_1.mp4'' ''a'' 10) \<and>
   Wait 30 \<in> set (snd (create_video studio_world [] (Some ''a.srt'') ''video_1.mp4'' ''a'' 10)) \<and>
   Close \<in> set (snd (create_video studio_world [] (Some ''a.srt'') ''video_1.mp4'' ''a'' 10)) \<and>
   written (snd (create_video studio_world [] (Some ''a.srt'') ''video_1.mp4'' ''a'' 10))
     = [0 ..< nat (py_int ((3 / 10) * of_int 10))]"
proof -
  have a: "wait_outcome (studio_world\<lparr>wait_outcome := Exited 1\<rparr>) = Exited 1 \<and> (1 :: int) \<noteq> 0"
    by simp
  have b: "wait_outcome (studio_world\<lparr>wait_outcome := TimeoutExpired\<rparr>) = TimeoutExpired"
    by simp
  have c: "fst (create_video studio_world [] (Some ''a.srt'') ''video_1.mp4'' ''a'' 10)"
    "Wait 30 \<in> set (snd (create_video studio_world [] (Some ''a.srt'') ''video_1.mp4'' ''a'' 10))"
    "Close \<in> set (snd (create_video studio_world [] (Some ''a.srt'') ''video_1.mp4'' ''a'' 10))"
    by (simp_all add: studio_run)
  have d: "ffprobe studio_world = ProbeDuration (3 / 10)"
    by (simp add: studio_world_def)
  note t1 = create_video_encoder_failure [OF prod.collapse [symmetric],
        of "studio_world\<lparr>wait_outcome := Exited 1\<rparr>" "[]" "Some ''a.srt''" "''video_1.mp4''" "''a''" 10]
  note t2 = create_video_encoder_failure [OF prod.collapse [symmetric],
        of "studio_world\<lparr>wait_outcome := TimeoutExpired\<rparr>" "[]" "Some ''a.srt''" "''video_1.mp4''" "''a''" 10]
  note t3 = create_video_encoder_failure [OF prod.collapse [symmetric],
        of studio_world "[]" "Some ''a.srt''" "''video_1.mp4''" "''a''" 10]
  have 1: "\<not> fst (create_video (studio_world\<lparr>wait_outcome := Exited 1\<rparr>) [] (Some ''a.srt'')
            ''video_1.mp4'' ''a'' 10)"
    using t1 [THEN conjunct1] a by blast
  have 2: "\<not> fst (create_video (studio_world\<lparr>wait_outcome := TimeoutExpired\<rparr>) [] (Some ''a.srt'')
            ''video_1.mp4'' ''a'' 10)"
    using t2 [THEN conjunct2, THEN conjunct1] b by blast
  have "\<exists>duration. ffprobe studio_world = ProbeDuration duration \<and>
      written (snd (create_video studio_world [] (Some ''a.srt'') ''video_1.mp4'' ''a'' 10))
        = [0 ..< nat (py_int (duration * of_int 10))]"
    using t3 [THEN conjunct2, THEN conjunct2, THEN conjunct2, THEN conjunct2] c(1) by blast
  then obtain duration where dd: "ProbeDuration (3 / 10) = ProbeDuration duration"
    and ww: "written (snd (create_video studio_world [] (Some ''a.srt'') ''video_1.mp4'' ''a'' 10))
        = [0 ..< nat (py_int (duration * of_int 10))]"
    unfolding d by blast
  from dd have "duration = 3 / 10"
    by (simp only: probe.inject)
  with ww have 3: "written (snd (create_video studio_world [] (Some ''a.srt'') ''video_1.mp4'' ''a'' 10))
     = [0 ..< nat (py_int ((3 / 10) * of_int 10))]"
    by (simp only:)
  from a b c 1 2 3 show ?thesis by blast
qed

section \<open>The frame compositor: failing effects\<close>

lemma apply_effects_append:
  "apply_effects (xs @ ys) kw frame =
     (case apply_effects xs kw frame of
        (frame1, errors1) \<Rightarrow>
          (case apply_effects ys kw frame1 of
             (frame2, errors2) \<Rightarrow> (frame2, errors1 @ errors2)))"
proof (induction xs arbitrary: frame)
  case Nil
  then show ?case by (simp split: prod.splits)
next
  case (Cons a xs)
  obtain name effect where a: "a = (name, effect)" by (cases a)
  show ?case
    by (cases "effect frame kw") (simp_all add: a Cons.IH split: prod.splits)
qed

lemma encoder_events_append:
  "encoder_events (xs @ ys) = encoder_events xs @ encoder_events ys"
  by (induction xs rule: encoder_events.induct) simp_all

lemma encoder_events_EffectError: "encoder_events (map EffectError errors) = []"
  by (induction errors) simp_all

lemma write_frames_any_effects:
  "fst (write_frames w effects_list img fps video_id audio_name idxs)
     = fst (write_frames w [] img fps video_id audio_name idxs) \<and>
   written (snd (write_frames w effects_list img fps video_id audio_name idxs))
     = written (snd (write_frames w [] img fps video_id audio_name idxs))"
  by (induction idxs)
     (auto simp: Let_def written_append written_EffectError split: prod.splits)

lemma write_frames_same_frames:
  assumes "\<And>kw. fst (apply_effects effects1 kw img) = fst (apply_effects effects2 kw img)"
  shows "fst (write_frames w effects1 img fps video_id audio_name idxs)
     = fst (write_frames w effects2 img fps video_id audio_name idxs) \<and>
   encoder_events (snd (write_frames w effects1 img fps video_id audio_name idxs))
     = encoder_events (snd (write_frames w effects2 img fps video_id audio_name idxs))"
proof (induction idxs)
  case Nil
  then show ?case by simp
next
  case (Cons i idxs)
  let ?kw = "\<lparr>kw_frame_idx = i, kw_fps = fps, kw_video_id = video_id, kw_audio_name = audio_name\<rparr>"
  from assms [of ?kw] Cons show ?case
    by (auto simp: Let_def encoder_events_append encoder_events_EffectError split: prod.splits)
qed


lemma create_video_cases:
  "(\<forall>effects_list. create_video w effects_list srt_path video_id audio_name fps = (False, [])) \<or>
   (\<exists>img n vf. \<forall>effects_list.
      create_video w effects_list srt_path video_id audio_name fps =
        (case write_frames w effects_list img fps video_id audio_name [0 ..< n] of
           (ok, events) \<Rightarrow>
             if \<not> ok \<or> \<not> close_ok w then (False, Popen vf # events @ [Kill])
             else if wait_outcome w = TimeoutExpired
             then (False, Popen vf # events @ [Close, Wait 30, Kill])
             else (wait_outcome w = Exited 0, Popen vf # events @ [Close, Wait 30])))"
proof (cases "imread w")
  case None
  then show ?thesis by (simp add: create_video_def)
next
  case (Some img0)
  show ?thesis
  proof (cases "ffprobe w")
    case ProbeError
    with Some show ?thesis by (simp add: create_video_def Let_def)
  next
    case (ProbeDuration duration)
    show ?thesis
    proof (cases "py_int (duration * of_int fps) \<le> 0 \<or> \<not> popen_ok w")
      case True
      with Some ProbeDuration show ?thesis
        by (auto simp: create_video_def Let_def)
    next
      case False
      with Some ProbeDuration have "\<forall>effects_list.
        create_video w effects_list srt_path video_id audio_name fps =
        (case write_frames w effects_list
            (resize w img0 (if shape1 img0 mod 2 \<noteq> 0 then shape1 img0 - 1 else shape1 img0)
               (if shape0 img0 mod 2 \<noteq> 0 then shape0 img0 - 1 else shape0 img0))
            fps video_id audio_name [0 ..< nat (py_int (duration * of_int fps))] of
           (ok, events) \<Rightarrow>
             if \<not> ok \<or> \<not> close_ok w
             then (False, Popen ((case srt_path of None \<Rightarrow> False | Some p \<Rightarrow> p \<noteq> []) \<and> srt_exists w)
                            # events @ [Kill])
             else if wait_outcome w = TimeoutExpired
             then (False, Popen ((case srt_path of None \<Rightarrow> False | Some p \<Rightarrow> p \<noteq> []) \<and> srt_exists w)
                            # events @ [Close, Wait 30, Kill])
             else (wait_outcome w = Exited 0,
                   Popen ((case srt_path of None \<Rightarrow> False | Some p \<Rightarrow> p \<noteq> []) \<and> srt_exists w)
                            # events @ [Close, Wait 30]))"
        by (auto simp: create_video_def Let_def split: prod.splits wait_result.splits)
      then show ?thesis by blast
    qed
  qed
qed

lemma create_video_any_effects:
  "fst (create_video w effects_list srt_path video_id audio_name fps)
     = fst (create_video w [] srt_path video_id audio_name fps) \<and>
   written (snd (create_video w effects_list srt_path video_id audio_name fps))
     = written (snd (create_video w [] srt_path video_id audio_name fps))"
proof -
  from create_video_cases [of w srt_path video_id audio_name fps]
  show ?thesis
  proof (elim disjE exE)
    assume "\<forall>effects_list. create_video w effects_list srt_path video_id audio_name fps = (False, [])"
    then show ?thesis by simp
  next
    fix img n vf
    assume cv: "\<forall>effects_list.
      create_video w effects_list srt_path video_id audio_name fps =
        (case write_frames w effects_list img fps video_id audio_name [0 ..< n] of
           (ok, events) \<Rightarrow>
             if \<not> ok \<or> \<not> close_ok w then (False, Popen vf # events @ [Kill])
             else if wait_outcome w = TimeoutExpired
             then (False, Popen vf # events @ [Close, Wait 30, Kill])
             else (wait_outcome w = Exited 0, Popen vf # events @ [Close, Wait 30]))"
    obtain ok1 ev1 where r1:
      "write_frames w effects_list img fps video_id audio_name [0 ..< n] = (ok1, ev1)"
      by (cases "write_frames w effects_list img fps video_id audio_name [0 ..< n]") auto
    obtain ok2 ev2 where r2: "write_frames w [] img fps video_id audio_name [0 ..< n] = (ok2, ev2)"
      by (cases "write_frames w [] img fps video_id audio_name [0 ..< n]") auto
    from write_frames_any_effects [of w effects_list img fps video_id audio_name "[0 ..< n]"]
    have "ok1 = ok2" "written ev1 = written ev2"
      by (simp_all add: r1 r2)
    then show ?thesis
      by (simp add: cv r1 r2 written_append)
  qed
qed

lemma create_video_same_frames:
  assumes "\<And>kw frame. fst (apply_effects effects1 kw frame) = fst (apply_effects effects2 kw frame)"
  shows "fst (create_video w effects1 srt_path video_id audio_name fps)
     = fst (create_video w effects2 srt_path video_id audio_name fps) \<and>
   encoder_events (snd (create_video w effects1 srt_path video_id audio_name fps))
     = encoder_events (snd (create_video w effects2 srt_path video_id audio_name fps))"
proof -
  from create_video_cases [of w srt_path video_id audio_name fps]
  show ?thesis
  proof (elim disjE exE)
    assume "\<forall>effects_list. create_video w effects_list srt_path video_id audio_name fps = (False, [])"
    then show ?thesis by simp
  next
    fix img n vf
    assume cv: "\<forall>effects_list.
      create_video w effects_list srt_path video_id audio_name fps =
        (case write_frames w effects_list img fps video_id audio_name [0 ..< n] of
           (ok, events) \<Rightarrow>
             if \<not> ok \<or> \<not> close_ok w then (False, Popen vf # events @ [Kill])
             else if wait_outcome w = TimeoutExpired
             then (False, Popen vf # events @ [Close, Wait 30, Kill])
             else (wait_outcome w = Exited 0, Popen vf # events @ [Close, Wait 30]))"
    obtain ok1 ev1 where r1:
      "write_frames w effects1 img fps video_id audio_name [0 ..< n] = (ok1, ev1)"
      by (cases "write_frames w effects1 img fps video_id audio_name [0 ..< n]") auto
    obtain ok2 ev2 where r2:
      "write_frames w effects2 img fps video_id audio_name [0 ..< n] = (ok2, ev2)"
      by (cases "write_frames w effects2 img fps video_id audio_name [0 ..< n]") auto
    from write_frames_same_frames [of effects1 img effects2 w fps video_id audio_name "[0 ..< n]"] assms
    have "ok1 = ok2" "encoder_events ev1 = encoder_events ev2"
      by (simp_all add: r1 r2)
    then show ?thesis
      by (simp add: cv r1 r2 encoder_events_append)
  qed
qed


text \<open>
  C4 (as the code has it). An effect that raises is caught, its name is printed and the
  loop goes on: the effects after it run, on the buffer as the failing effect left it
  (the buffer is not copied before an effect runs, so what the effect wrote before it
  raised stays in the frame). Whether create_video succeeds and which frames it writes do
  not depend on the failing effect. An effect that always raises without having written
  to the buffer gives the same frame, and the same events on the encoder, as the list
  without it.
\<close>

theorem failing_effect_isolated:
  assumes "apply_effects pre kw frame = (frame1, errors1)"
    and "effect frame1 kw = Raises frame2"
    and "apply_effects post kw frame2 = (frame3, errors3)"
  shows "apply_effects (pre @ (name, effect) # post) kw frame = (frame3, errors1 @ name # errors3) \<and>
    (frame2 = frame1 \<longrightarrow> frame3 = fst (apply_effects (pre @ post) kw frame)) \<and>
    fst (create_video w (pre @ (name, effect) # post) srt_path video_id audio_name fps)
      = fst (create_video w (pre @ post) srt_path video_id audio_name fps) \<and>
    written (snd (create_video w (pre @ (name, effect) # post) srt_path video_id audio_name fps))
      = written (snd (create_video w (pre @ post) srt_path video_id audio_name fps)) \<and>
    ((\<forall>f k. effect f k = Raises f) \<longrightarrow>
       encoder_events (snd (create_video w (pre @ (name, effect) # post) srt_path video_id
                              audio_name fps))
         = encoder_events (snd (create_video w (pre @ post) srt_path video_id audio_name fps)))"
proof -
  have a: "apply_effects (pre @ (name, effect) # post) kw frame = (frame3, errors1 @ name # errors3)"
    using assms by (simp add: apply_effects_append)
  have b: "frame3 = fst (apply_effects (pre @ post) kw frame)" if "frame2 = frame1"
    using assms that by (simp add: apply_effects_append)
  have c: "fst (create_video w (pre @ (name, effect) # post) srt_path video_id audio_name fps)
      = fst (create_video w (pre @ post) srt_path video_id audio_name fps)"
    "written (snd (create_video w (pre @ (name, effect) # post) srt_path video_id audio_name fps))
      = written (snd (create_video w (pre @ post) srt_path video_id audio_name fps))"
    using create_video_any_effects [of w "pre @ (name, effect) # post" srt_path video_id audio_name fps]
      create_video_any_effects [of w "pre @ post" srt_path video_id audio_name fps]
    by simp_all
  have d: "encoder_events (snd (create_video w (pre @ (name, effect) # post) srt_path video_id
                              audio_name fps))
         = encoder_events (snd (create_video w (pre @ post) srt_path video_id audio_name fps))"
    if always: "\<forall>f k. effect f k = Raises f"
  proof -
    have "fst (apply_effects (pre @ (name, effect) # post) k f) = fst (apply_effects (pre @ post) k f)"
      for k f
      using always by (simp add: apply_effects_append split: prod.splits)
    then show ?thesis
      by (intro create_video_same_frames [THEN conjunct2])
  qed
  from a b c d show ?thesis by blast
qed

text \<open>
  An effect that raises at once, followed by one that paints a dot: the dot is painted and
  the failure is logged.
\<close>

theorem failing_effect_isolated_witness:
  "apply_effects [] first_frame_kwargs black_frame = (black_frame, []) \<and>
   snd refusing_effect black_frame first_frame_kwargs = Raises black_frame \<and>
   (\<forall>f k. snd refusing_effect f k = Raises f) \<and>
   apply_effects ([] @ (''refuse'', snd refusing_effect) # [painting_effect]) first_frame_kwargs
       black_frame
     = (overlay_transparent black_frame white_dot 7 7, [] @ ''refuse'' # []) \<and>
   overlay_transparent black_frame white_dot 7 7
     = fst (apply_effects ([] @ [painting_effect]) first_frame_kwargs black_frame) \<and>
   encoder_events (snd (create_video studio_world ([] @ (''refuse'', snd refusing_effect) # [painting_effect])
       None ''video_1.mp4'' ''a'' 10))
     = encoder_events (snd (create_video studio_world ([] @ [painting_effect])
       None ''video_1.mp4'' ''a'' 10))"
proof -
  have a: "apply_effects [] first_frame_kwargs black_frame = (black_frame, [])"
    by simp
  have b: "snd refusing_effect black_frame first_frame_kwargs = Raises black_frame"
    by (simp add: refusing_effect_def)
  have c: "apply_effects [painting_effect] first_frame_kwargs black_frame
      = (overlay_transparent black_frame white_dot 7 7, [])"
    by (simp add: painting_effect_def)
  have d: "\<forall>f k. snd refusing_effect f k = Raises f"
    by (simp add: refusing_effect_def)
  note t = failing_effect_isolated [where pre = "[]" and effect = "snd refusing_effect"
      and kw = first_frame_kwargs and frame = black_frame and post = "[painting_effect]"
      and name = "''refuse''" and w = studio_world and srt_path = None
      and video_id = "''video_1.mp4''" and audio_name = "''a''" and fps = 10, OF a b c]
  from t [THEN conjunct1] t [THEN conjunct2, THEN conjunct1]
    t [THEN conjunct2, THEN conjunct2, THEN conjunct2, THEN conjunct2] a b d
  show ?thesis by blast
qed

text \<open>
  C4 as stated fails: an effect that always raises, but only after writing a dot into the
  buffer, changes the frame compared with no effect at all.
\<close>

theorem failing_effect_isolated_counterexample:
  "fst (apply_effects [scribbling_effect] first_frame_kwargs black_frame)
     \<noteq> fst (apply_effects [] first_frame_kwargs black_frame)"
  using dot_on_black by (simp add: scribbling_effect_def)

section \<open>The batch orchestrator: retries and cleanup\<close>

lemma retry_loop_unfolded:
  "retry_loop MAX_EDIT_RETRIES g r initial_retry_state =
     (if \<not> truthy g
      then \<lparr>attempt = 1, video_success = False, srt_file = g, calls = [GenerateSrt]\<rparr>
      else if r 1 g = Inr True
      then \<lparr>attempt = 1, video_success = True, srt_file = g,
            calls = [GenerateSrt, CreateVideo 1 g]\<rparr>
      else if r 2 g = Inr True
      then \<lparr>attempt = 2, video_success = True, srt_file = g,
            calls = [GenerateSrt, CreateVideo 1 g, Sleep 5, CreateVideo 2 g]\<rparr>
      else \<lparr>attempt = 3, video_success = (r 3 g = Inr True), srt_file = g,
            calls = [GenerateSrt, CreateVideo 1 g, Sleep 5, CreateVideo 2 g, Sleep 5,
                     CreateVideo 3 g]\<rparr>)"
  by (auto simp: MAX_EDIT_RETRIES_def initial_retry_state_def sleep_before_retry_def Let_def
      numeral_2_eq_2 numeral_3_eq_3 split: sum.splits)

declare retry_loop.simps [simp del]


text \<open>
  C5. For every pair, whatever generate_srt returns and whatever the render attempts do,
  generate_srt is called at most once; every call of create_video carries the caption
  path of that one call and there are at most MAX_EDIT_RETRIES of them. If caption
  generation fails (returns None), the loop ends at once, without success and without
  any call of create_video. If the render fails in attempts 1 and 2 (by returning False
  or by raising) and succeeds in attempt 3, the pair ends in success after exactly one
  caption generation.
\<close>

theorem retry_loop_caption_once:
  assumes "st = retry_loop MAX_EDIT_RETRIES generate_srt render initial_retry_state"
  shows "count_list (calls st) GenerateSrt \<le> 1 \<and>
    (\<forall>n p. CreateVideo n p \<in> set (calls st) \<longrightarrow> p = generate_srt \<and> 1 \<le> n \<and> n \<le> MAX_EDIT_RETRIES) \<and>
    (\<not> truthy generate_srt \<longrightarrow> \<not> video_success st \<and> calls st = [GenerateSrt]) \<and>
    (truthy generate_srt \<and> render 1 generate_srt \<noteq> Inr True \<and> render 2 generate_srt \<noteq> Inr True
       \<and> render 3 generate_srt = Inr True \<longrightarrow>
         video_success st \<and> count_list (calls st) GenerateSrt = 1 \<and>
         calls st = [GenerateSrt, CreateVideo 1 generate_srt, Sleep 5,
                     CreateVideo 2 generate_srt, Sleep 5, CreateVideo 3 generate_srt])"
  unfolding assms retry_loop_unfolded by (simp add: MAX_EDIT_RETRIES_def)

text \<open>
  A render that returns False, then raises, then succeeds; and a caption generation that
  fails.
\<close>

theorem retry_loop_caption_once_witness:
  "truthy (Some ''audio/a.srt'') \<and> third_time_lucky 1 (Some ''audio/a.srt'') \<noteq> Inr True \<and>
   third_time_lucky 2 (Some ''audio/a.srt'') \<noteq> Inr True \<and>
   third_time_lucky 3 (Some ''audio/a.srt'') = Inr True \<and>
   video_success (retry_loop MAX_EDIT_RETRIES (Some ''audio/a.srt'') third_time_lucky
                    initial_retry_state) \<and>
   count_list (calls (retry_loop MAX_EDIT_RETRIES (Some ''audio/a.srt'') third_time_lucky
                        initial_retry_state)) GenerateSrt = 1 \<and>
   \<not> truthy None \<and>
   calls (retry_loop MAX_EDIT_RETRIES None third_time_lucky initial_retry_state) = [GenerateSrt]"
proof -
  have a: "truthy (Some ''audio/a.srt'') \<and> third_time_lucky 1 (Some ''audio/a.srt'') \<noteq> Inr True \<and>
     third_time_lucky 2 (Some ''audio/a.srt'') \<noteq> Inr True \<and>
     third_time_lucky 3 (Some ''audio/a.srt'') = Inr True"
    by (simp add: truthy_def third_time_lucky_def)
  have b: "\<not> truthy None"
    by (simp add: truthy_def)
  note t1 = retry_loop_caption_once [OF refl, of "Some ''audio/a.srt''" third_time_lucky]
  note t2 = retry_loop_caption_once [OF refl, of None third_time_lucky]
  from t1 [THEN conjunct2, THEN conjunct2, THEN conjunct2] a
  have 1: "video_success (retry_loop MAX_EDIT_RETRIES (Some ''audio/a.srt'') third_time_lucky
                    initial_retry_state) \<and>
   count_list (calls (retry_loop MAX_EDIT_RETRIES (Some ''audio/a.srt'') third_time_lucky
                        initial_retry_state)) GenerateSrt = 1"
    by blast
  from t2 [THEN conjunct2, THEN conjunct2, THEN conjunct1] b
  have 2: "calls (retry_loop MAX_EDIT_RETRIES None third_time_lucky initial_retry_state)
      = [GenerateSrt]"
    by blast
  from a b 1 2 show ?thesis by blast
qed

lemma retry_loop_srt_file:
  "srt_file (retry_loop MAX_EDIT_RETRIES g r initial_retry_state) = g"
  unfolding retry_loop_unfolded by simp

lemma retry_loop_exhausted:
  "\<forall>n. r n g \<noteq> Inr True \<Longrightarrow> \<not> video_success (retry_loop MAX_EDIT_RETRIES g r initial_retry_state)"
  unfolding retry_loop_unfolded by simp

text \<open>
  C6. For a pair whose image and audio files exist when the retry loop has ended (the
  caption file being a third file), the cleanup removes the caption file if there is
  one, in both terminal states; on success it also removes the audio and the image, and
  nothing else; on failure it removes nothing else, so both source files are kept. A
  render that fails in every attempt ends in failure with the sources kept and the
  caption file removed.
\<close>

theorem final_cleanup_files:
  assumes "process_pair generate_srt render img_path aud_path fs = (st, fs1)"
    and "img_path \<in> fs" and "aud_path \<in> fs" and "img_path \<noteq> aud_path"
    and "generate_srt \<noteq> Some img_path" and "generate_srt \<noteq> Some aud_path"
  shows "(\<forall>p. srt_file st = Some p \<and> p \<noteq> [] \<longrightarrow> p \<notin> fs1) \<and>
    (video_success st \<longrightarrow> aud_path \<notin> fs1 \<and> img_path \<notin> fs1 \<and>
       fs1 = fs - {p. srt_file st = Some p \<and> p \<noteq> []} - {aud_path, img_path}) \<and>
    (\<not> video_success st \<longrightarrow> aud_path \<in> fs1 \<and> img_path \<in> fs1 \<and>
       fs1 = fs - {p. srt_file st = Some p \<and> p \<noteq> []}) \<and>
    ((\<forall>n. render n generate_srt \<noteq> Inr True) \<longrightarrow>
       \<not> video_success st \<and> aud_path \<in> fs1 \<and> img_path \<in> fs1 \<and>
       (\<forall>p. generate_srt = Some p \<and> p \<noteq> [] \<longrightarrow> p \<notin> fs1))"
proof -
  from assms(1) have st: "st = retry_loop MAX_EDIT_RETRIES generate_srt render initial_retry_state"
    and fs1: "fs1 = final_cleanup st img_path aud_path fs"
    by (auto simp: process_pair_def Let_def)
  have srt: "srt_file st = generate_srt"
    unfolding st by (rule retry_loop_srt_file)
  have ex: "\<not> video_success st" if "\<forall>n. render n generate_srt \<noteq> Inr True"
    unfolding st using that by (rule retry_loop_exhausted)
  have main: "(\<forall>p. srt_file st = Some p \<and> p \<noteq> [] \<longrightarrow> p \<notin> fs1) \<and>
    (video_success st \<longrightarrow> aud_path \<notin> fs1 \<and> img_path \<notin> fs1 \<and>
       fs1 = fs - {p. srt_file st = Some p \<and> p \<noteq> []} - {aud_path, img_path}) \<and>
    (\<not> video_success st \<longrightarrow> aud_path \<in> fs1 \<and> img_path \<in> fs1 \<and>
       fs1 = fs - {p. srt_file st = Some p \<and> p \<noteq> []})"
    using assms(2-6) srt unfolding fs1
    by (cases generate_srt) (auto simp: final_cleanup_def os_remove_def Let_def)
  have "(\<forall>n. render n generate_srt \<noteq> Inr True) \<longrightarrow>
       \<not> video_success st \<and> aud_path \<in> fs1 \<and> img_path \<in> fs1 \<and>
       (\<forall>p. generate_srt = Some p \<and> p \<noteq> [] \<longrightarrow> p \<notin> fs1)"
    using main ex unfolding srt by blast
  with main show ?thesis by blast
qed

text \<open>
  One pair with its caption file: after a render that always fails only the caption file
  is gone; after a render that succeeds in the third attempt all three files are gone.
\<close>

theorem final_cleanup_files_witness:
  "''images/a.png'' \<in> pair_files \<and> ''audio/a.mp3'' \<in> pair_files \<and>
   ''images/a.png'' \<noteq> ''audio/a.mp3'' \<and>
   Some ''audio/a.srt'' \<noteq> Some ''images/a.png'' \<and> Some ''audio/a.srt'' \<noteq> Some ''audio/a.mp3'' \<and>
   (\<forall>n. always_failing n (Some ''audio/a.srt'') \<noteq> Inr True) \<and>
   snd (process_pair (Some ''audio/a.srt'') always_failing ''images/a.png'' ''audio/a.mp3'' pair_files)
     = {''images/a.png'', ''audio/a.mp3''} \<and>
   video_success (fst (process_pair (Some ''audio/a.srt'') third_time_lucky ''images/a.png''
                         ''audio/a.mp3'' pair_files)) \<and>
   snd (process_pair (Some ''audio/a.srt'') third_time_lucky ''images/a.png'' ''audio/a.mp3''
          pair_files) = {}"
proof -
  have a: "''images/a.png'' \<in> pair_files" "''audio/a.mp3'' \<in> pair_files"
    "''images/a.png'' \<noteq> ''audio/a.mp3''"
    "Some ''audio/a.srt'' \<noteq> Some ''images/a.png''" "Some ''audio/a.srt'' \<noteq> Some ''audio/a.mp3''"
    by (simp_all add: pair_files_def)
  have b: "\<forall>n. always_failing n (Some ''audio/a.srt'') \<noteq> Inr True"
    by (simp add: always_failing_def)
  have c: "video_success (fst (process_pair (Some ''audio/a.srt'') third_time_lucky ''images/a.png''
                         ''audio/a.mp3'' pair_files))"
    "srt_file (fst (process_pair (Some ''audio/a.srt'') third_time_lucky ''images/a.png''
                         ''audio/a.mp3'' pair_files)) = Some ''audio/a.srt''"
    "srt_file (fst (process_pair (Some ''audio/a.srt'') always_failing ''images/a.png''
                         ''audio/a.mp3'' pair_files)) = Some ''audio/a.srt''"
    by (simp_all add: process_pair_def retry_loop_unfolded third_time_lucky_def always_failing_def
        truthy_def Let_def)
  note t1 = final_cleanup_files [where render = always_failing, OF prod.collapse [symmetric] a]
  note t2 = final_cleanup_files [where render = third_time_lucky, OF prod.collapse [symmetric] a]
  from t1 [THEN conjunct2, THEN conjunct2, THEN conjunct2] b
  have f: "\<not> video_success (fst (process_pair (Some ''audio/a.srt'') always_failing ''images/a.png''
                         ''audio/a.mp3'' pair_files))"
    by blast
  from t1 [THEN conjunct2, THEN conjunct2, THEN conjunct1] f
  have 1: "snd (process_pair (Some ''audio/a.srt'') always_failing ''images/a.png'' ''audio/a.mp3''
       pair_files) = pair_files - {p. Some ''audio/a.srt'' = Some p \<and> p \<noteq> []}"
    unfolding c by blast
  from t2 [THEN conjunct2, THEN conjunct1] c(1)
  have 2: "snd (process_pair (Some ''audio/a.srt'') third_time_lucky ''images/a.png'' ''audio/a.mp3''
       pair_files) = pair_files - {p. Some ''audio/a.srt'' = Some p \<and> p \<noteq> []}
          - {''audio/a.mp3'', ''images/a.png''}"
    unfolding c by blast
  have s: "{p. Some ''audio/a.srt'' = Some p \<and> p \<noteq> []} = {''audio/a.srt''}"
    by auto
  from 1 have r1: "snd (process_pair (Some ''audio/a.srt'') always_failing ''images/a.png''
      ''audio/a.mp3'' pair_files) = {''images/a.png'', ''audio/a.mp3''}"
    unfolding s by (auto simp: pair_files_def)
  from 2 have r2: "snd (process_pair (Some ''audio/a.srt'') third_time_lucky ''images/a.png''
      ''audio/a.mp3'' pair_files) = {}"
    unfolding s by (auto simp: pair_files_def)
  from a b c(1) r1 r2 show ?thesis by blast
qed

section \<open>The usage ledger: fair rotation and stable bindings\<close>



lemma pick_bound:
  assumes "assigned st video_id = Some name"
  shows "pick_gif_for_video ALL_GIFS rnd io_ok st video_id =
    ((case map_of ALL_GIFS name of
        Some frames \<Rightarrow> frames
      | None \<Rightarrow> (if ALL_GIFS \<noteq> [] then random_choice rnd (map snd ALL_GIFS) else [])), st)"
  using assms
  by (cases "video_map (USAGE_DATA st)") (simp_all add: assigned_def pick_gif_for_video_def)

































text \<open>
  A binding to a name that is not among the loaded assets is answered by a fresh random
  choice on every call; such a ledger cannot arise while the table of assets stays the
  same.
\<close>

lemma pick_stale_binding:
  assumes "assigned st video_id = Some name" and "name \<notin> set (map fst ALL_GIFS)"
    and "ALL_GIFS \<noteq> []"
  shows "pick_gif_for_video ALL_GIFS rnd io_ok st video_id
     = (random_choice rnd (map snd ALL_GIFS), st)"
proof -
  have "map_of ALL_GIFS name = None"
    using assms(2) by (simp add: map_of_eq_None_iff)
  then show ?thesis
    using assms(1,3) by (simp add: pick_bound)
qed

end
